theory Spec2Isabelle
  imports Complex_Main "HOL-Library.Word" "HOL-Library.AList"
begin

section \<open>Ambient mixer: the audio core of \<open>src/app/test.py\<close>\<close>

text \<open>
  A shallow embedding of the signal functions (\<open>generate_white_noise\<close>,
  \<open>moving_average\<close>, \<open>apply_fade_edges\<close>, \<open>normalize\<close>), of the int16 encoder and
  sound construction (\<open>_create_sound\<close>, \<open>_load_sound\<close>) and of the two event handlers
  of \<open>AmbientMixerApp\<close> (\<open>on_volume_change\<close>, \<open>on_close\<close>).

  Conventions.
  \<^item> A one-dimensional numpy array is a list; a two-dimensional one is a list of rows.
  \<^item> A float is the real number it denotes. Every arithmetic operation of the source
    is the exact operation followed by \<open>float_round\<close>, IEEE 754 rounding to nearest,
    ties to even, in the format of the operation (float64 for Python floats, the
    array's dtype for numpy arrays). A result of magnitude \<open>2 ^ (emax + 1)\<close> or more
    stands for an infinity. NaN is not a value of the model, and arithmetic on
    infinities is not modelled.
  \<^item> Memory is unbounded: an array of any length can be allocated.
  \<^item> Every exception the Python raises is a value \<open>Inl e\<close> of \<open>error + 'a\<close>.
  \<^item> \<open>print\<close> is a log of lines returned next to the result.
  \<^item> The names \<open>_create_sound\<close> and \<open>_load_sound\<close> lose their leading underscore;
    \<open>normalize\<close> is \<open>normalize_samples\<close> (HOL has a constant \<open>normalize\<close>).
\<close>

subsection \<open>Errors, arrays, Python conversions\<close>

datatype error =
    ValueError string
  | KeyError string
  | TypeError
  | OverflowError string
  | PygameError string
  | TclError string

datatype 'a ndarray = Arr1 "'a list" | Arr2 "'a list list"

fun map_array :: "('a \<Rightarrow> 'b) \<Rightarrow> 'a ndarray \<Rightarrow> 'b ndarray" where
  "map_array f (Arr1 xs) = Arr1 (map f xs)"
| "map_array f (Arr2 rows) = Arr2 (map (map f) rows)"

definition SAMPLE_RATE :: int where
  "SAMPLE_RATE = 44100"

definition BUFFER_SECONDS :: real where
  "BUFFER_SECONDS = 8"

text \<open>\<open>str(n)\<close> for an integer, as an f-string prints it.\<close>

fun show_nat :: "nat \<Rightarrow> string" where
  "show_nat n =
     (if n < 10 then [''0123456789'' ! n]
      else show_nat (n div 10) @ [''0123456789'' ! (n mod 10)])"

definition show_int :: "int \<Rightarrow> string" where
  "show_int i = (if i < 0 then CHR ''-'' # show_nat (nat (- i)) else show_nat (nat i))"

subsection \<open>Floating point\<close>

text \<open>
  The two formats of the program: precision in bits and the exponents of the smallest
  and the largest binade of normal numbers.
\<close>

datatype dtype = Float32 | Float64

fun prec :: "dtype \<Rightarrow> nat" where
  "prec Float32 = 24"
| "prec Float64 = 53"

fun emin :: "dtype \<Rightarrow> int" where
  "emin Float32 = - 126"
| "emin Float64 = - 1022"

fun emax :: "dtype \<Rightarrow> int" where
  "emax Float32 = 127"
| "emax Float64 = 1023"

definition pow2 :: "int \<Rightarrow> real" where
  "pow2 e = (if 0 \<le> e then 2 ^ nat e else 1 / 2 ^ nat (- e))"

text \<open>Rounding a real to the nearest integer, a tie to the even one.\<close>

definition rne :: "real \<Rightarrow> int" where
  "rne z =
     (let f = \<lfloor>z\<rfloor>; r = z - real_of_int f
      in if r < 1 / 2 then f else if 1 / 2 < r then f + 1 else if even f then f else f + 1)"

text \<open>
  The binade of a magnitude \<open>a\<close>: the largest exponent \<open>e\<close> of the format with
  \<open>2 ^ e \<le> a\<close>, the smallest exponent for the subnormal magnitudes below it.
  \<open>float_round\<close> rounds to the nearest multiple of the binade's spacing
  \<open>2 ^ (e - prec + 1)\<close>.
\<close>

definition expo :: "dtype \<Rightarrow> real \<Rightarrow> int" where
  "expo dt a = Max (set (emin dt # filter (\<lambda>e. pow2 e \<le> a) [emin dt..emax dt]))"

definition float_round :: "dtype \<Rightarrow> real \<Rightarrow> real" where
  "float_round dt x =
     (let q = pow2 (expo dt \<bar>x\<bar> - int (prec dt) + 1) in q * real_of_int (rne (x / q)))"

text \<open>
  Python's \<open>int(x)\<close> on a float truncates towards zero and raises OverflowError on an
  infinity; numpy's \<open>astype\<close> to an integer type truncates towards zero as well.
\<close>

definition py_int :: "real \<Rightarrow> int" where
  "py_int x = (if 0 \<le> x then \<lfloor>x\<rfloor> else \<lceil>x\<rceil>)"

definition int_of_float :: "real \<Rightarrow> error + int" where
  "int_of_float v =
     (if pow2 1024 \<le> \<bar>v\<bar> then Inl (OverflowError ''cannot convert float infinity to integer'')
      else Inr (py_int v))"

subsection \<open>Signal generation and shaping\<close>

text \<open>
  \<open>np.random.normal(0, 1, sample_count)\<close> draws \<open>sample_count\<close> values from the
  process-wide random source, here the parameter \<open>rng\<close> (the \<open>i\<close>-th draw is
  \<open>rng i\<close>); a negative count raises ValueError. The count is \<open>int\<close> of the float64
  product \<open>SAMPLE_RATE * duration_seconds\<close>.
\<close>

definition generate_white_noise :: "(nat \<Rightarrow> real) \<Rightarrow> real \<Rightarrow> error + real list" where
  "generate_white_noise rng duration_seconds =
     (case int_of_float (float_round Float64 (real_of_int SAMPLE_RATE * duration_seconds)) of
        Inl e \<Rightarrow> Inl e
      | Inr sample_count \<Rightarrow>
          if sample_count < 0 then Inl (ValueError ''negative dimensions are not allowed'')
          else Inr (map rng [0..<nat sample_count]))"

text \<open>
  \<open>np.convolve(signal, kernel, mode="same")\<close> is the library's: the parameter
  \<open>convolve_same\<close>. The kernel \<open>np.ones(window_size, dtype=np.float32) /
  float(window_size)\<close> is a float32 array.
\<close>

definition moving_average ::
  "(real list \<Rightarrow> real list \<Rightarrow> error + real list) \<Rightarrow> real list \<Rightarrow> int \<Rightarrow> error + real list" where
  "moving_average convolve_same signal window_size =
     (if window_size \<le> 1 then Inr signal
      else let kernel = map (\<lambda>x. float_round Float32 (x / real_of_int window_size))
                          (replicate (nat window_size) 1)
           in convolve_same signal kernel)"

text \<open>
  \<open>np.linspace(start, stop, num, dtype=dt)\<close> with the end point included, as numpy
  computes it: in float64, \<open>delta = stop - start\<close>, \<open>step = delta / (num - 1)\<close> and
  the \<open>i\<close>-th value \<open>i * step + start\<close> (\<open>(i / (num - 1)) * delta + start\<close> when the
  step underflows to 0, \<open>i * delta + start\<close> when \<open>num - 1\<close> is not positive); the last
  of several values is set to \<open>stop\<close>; the array is then cast to \<open>dt\<close>.
\<close>

definition np_linspace :: "dtype \<Rightarrow> real \<Rightarrow> real \<Rightarrow> nat \<Rightarrow> real list" where
  "np_linspace dt start stop num =
     (let steps = num - 1;
          delta = float_round Float64 (stop - start);
          step = float_round Float64 (delta / real steps);
          y = map (\<lambda>i. if steps = 0 then float_round Float64 (real i * delta)
                       else if step = 0
                         then float_round Float64 (float_round Float64 (real i / real steps) * delta)
                       else float_round Float64 (real i * step)) [0..<num];
          y1 = map (\<lambda>v. float_round Float64 (v + start)) y;
          y2 = (if 1 < num then y1[num - 1 := stop] else y1)
      in map (float_round dt) y2)"

text \<open>
  \<open>min(int(fade_duration * SAMPLE_RATE), len(samples) // 2)\<close>, the product a float64.
\<close>

definition fade_len :: "real \<Rightarrow> nat \<Rightarrow> error + int" where
  "fade_len fade_duration n =
     (case int_of_float (float_round Float64 (fade_duration * real_of_int SAMPLE_RATE)) of
        Inl e \<Rightarrow> Inl e
      | Inr c \<Rightarrow> Inr (min c (int n div 2)))"

text \<open>
  \<open>dt\<close> is \<open>samples.dtype\<close>. The two slice assignments
  \<open>samples[:fade_len] *= fade_in\<close> and \<open>samples[-fade_len:] *= fade_out\<close> update the
  array in place, one after the other, each product rounded to \<open>dt\<close>; the function
  returns the updated array.
\<close>

definition apply_fade_edges :: "dtype \<Rightarrow> real list \<Rightarrow> real \<Rightarrow> error + real list" where
  "apply_fade_edges dt samples fade_duration =
     (case fade_len fade_duration (length samples) of
        Inl e \<Rightarrow> Inl e
      | Inr fl \<Rightarrow>
          if fl \<le> 0 then Inr samples
          else
            let k = nat fl;
                fade_in = np_linspace dt 0 1 k;
                fade_out = rev fade_in;
                s1 = map2 (\<lambda>x r. float_round dt (x * r)) (take k samples) fade_in
                       @ drop k samples;
                s2 = take (length s1 - k) s1
                       @ map2 (\<lambda>x r. float_round dt (x * r)) (drop (length s1 - k) s1) fade_out
            in Inr s2)"

text \<open>The default \<open>fade_duration=0.1\<close>: the float64 nearest to one tenth.\<close>

definition DEFAULT_FADE_DURATION :: real where
  "DEFAULT_FADE_DURATION = 3602879701896397 / 36028797018963968"

text \<open>\<open>np.max\<close> of an empty array raises ValueError.\<close>

fun np_max :: "real list \<Rightarrow> error + real" where
  "np_max [] =
     Inl (ValueError ''zero-size array to reduction operation maximum which has no identity'')"
| "np_max (x # xs) = Inr (fold max xs x)"

text \<open>\<open>dt\<close> is \<open>samples.dtype\<close>; \<open>samples / peak\<close> divides in that format.\<close>

definition normalize_samples :: "dtype \<Rightarrow> real list \<Rightarrow> error + real list" where
  "normalize_samples dt samples =
     (case np_max (map abs samples) of
        Inl e \<Rightarrow> Inl e
      | Inr peak \<Rightarrow>
          if peak = 0 then Inr samples
          else Inr (map (\<lambda>x. float_round dt (x / peak)) samples))"

subsection \<open>Fixed-point encoding\<close>

text \<open>
  The encoder of \<open>_create_sound\<close> is the expression
  \<open>np.clip(samples * 32767, -32768, 32767).astype(np.int16)\<close>, applied to every
  element of the float32 array: the product is a float32, \<open>np.clip\<close> is
  \<open>minimum(maximum(x, lo), hi)\<close>, and the cast to int16 truncates towards zero (and
  would wrap around outside the 16-bit range).
\<close>

definition np_clip :: "real \<Rightarrow> real \<Rightarrow> real \<Rightarrow> real" where
  "np_clip x lo hi = min (max x lo) hi"

definition astype_int16 :: "real \<Rightarrow> 16 word" where
  "astype_int16 x = word_of_int (py_int x)"

definition encode_sample :: "real \<Rightarrow> 16 word" where
  "encode_sample x = astype_int16 (np_clip (float_round Float32 (x * 32767)) (- 32768) 32767)"

definition to_int16 :: "real ndarray \<Rightarrow> 16 word ndarray" where
  "to_int16 a = map_array encode_sample a"

subsection \<open>Sound construction\<close>

text \<open>
  A \<open>pygame.mixer.Sound\<close> owns its sample buffer. \<open>pygame.sndarray.make_sound\<close>
  belongs to the library: it is the parameter \<open>make_sound\<close> of \<open>create_sound\<close>,
  which may accept a buffer or raise. \<open>pygame.mixer.get_init()\<close> is the parameter
  \<open>init_info\<close>: \<open>None\<close>, or (frequency, format, channels).
\<close>

datatype sound = Sound "16 word ndarray"

definition shape_str :: "nat \<Rightarrow> int \<Rightarrow> string" where
  "shape_str n channels =
     (if channels \<le> 1 then ''('' @ show_nat n @ '',)''
      else ''('' @ show_nat n @ '', '' @ show_int channels @ '')'')"

definition fallback_message :: "int \<Rightarrow> string \<Rightarrow> string \<Rightarrow> string" where
  "fallback_message channels shape err =
     ''[AudioGen] Failed to create sound (channels='' @ show_int channels @ '', shape='' @ shape
       @ ''): '' @ err @ ''. Attempting emergency mono fallback.''"

text \<open>
  Two steps of \<open>_create_sound\<close>: the channel count read from \<open>get_init()\<close>, 2 when
  the mixer reports nothing, and the array handed to the encoder, the mono signal itself
  or \<open>np.tile(raw[:, None], (1, channels))\<close>, one row of \<open>channels\<close> equal entries per
  sample.
\<close>

definition mixer_channels :: "(int \<times> int \<times> int) option \<Rightarrow> int" where
  "mixer_channels init_info = (case init_info of None \<Rightarrow> 2 | Some (_, _, c) \<Rightarrow> c)"

definition adapt_shape :: "real list \<Rightarrow> int \<Rightarrow> real ndarray" where
  "adapt_shape raw channels =
     (if channels \<le> 1 then Arr1 raw else Arr2 (map (\<lambda>x. replicate (nat channels) x) raw))"

text \<open>
  \<open>np.asarray(generator(), dtype=np.float32)\<close> casts the generated samples to float32;
  they are normalized, copied and faded with the default fade duration, all in float32.
\<close>

definition create_sound ::
  "(16 word ndarray \<Rightarrow> error + sound) \<Rightarrow> (int \<times> int \<times> int) option \<Rightarrow> (unit \<Rightarrow> real list)
     \<Rightarrow> string list \<times> (error + sound)" where
  "create_sound make_sound init_info generator =
     (case normalize_samples Float32 (map (float_round Float32) (generator ())) of
        Inl e \<Rightarrow> ([], Inl e)
      | Inr normalized \<Rightarrow>
          (case apply_fade_edges Float32 normalized DEFAULT_FADE_DURATION of
             Inl e \<Rightarrow> ([], Inl e)
           | Inr raw \<Rightarrow>
               let channels = mixer_channels init_info;
                   samples = adapt_shape raw channels
               in case make_sound (to_int16 samples) of
                    Inr s \<Rightarrow> ([], Inr s)
                  | Inl (ValueError err) \<Rightarrow>
                      ([fallback_message channels (shape_str (length raw) channels) err],
                       make_sound (to_int16 (Arr1 raw)))
                  | Inl e \<Rightarrow> ([], Inl e)))"

text \<open>
  The shape check of pygame's \<open>Sound(array=...)\<close> on a mixer opened with \<open>d\<close> channels,
  an instance of \<open>make_sound\<close>: a mono mixer takes a one-dimensional array, any other
  a two-dimensional one whose rows have \<open>d\<close> entries; everything else is a ValueError.
\<close>

fun layout_make_sound :: "nat \<Rightarrow> 16 word ndarray \<Rightarrow> error + sound" where
  "layout_make_sound d (Arr1 xs) =
     (if d = 1 then Inr (Sound (Arr1 xs))
      else Inl (ValueError ''Array must be 2-dimensional for stereo mixer''))"
| "layout_make_sound d (Arr2 rows) =
     (if d = 1 then Inl (ValueError ''Array must be 1-dimensional for mono mixer'')
      else if list_all (\<lambda>r. length r = d) rows then Inr (Sound (Arr2 rows))
      else Inl (ValueError ''Array depth must match number of mixer channels''))"

subsection \<open>Profiles and loading\<close>

text \<open>
  A profile is a Python dict from strings to strings or callables; \<open>SOUND_PROFILES\<close>
  is the module's list. The file system and the decoder are the parameter \<open>fs\<close>: what
  \<open>file_path.exists()\<close> and \<open>pygame.mixer.Sound(str(file_path))\<close> find at a path.
\<close>

datatype pval = PStr string | PGen "unit \<Rightarrow> real list"

type_synonym profile = "(string \<times> pval) list"

definition SOUND_PROFILES :: "profile list" where
  "SOUND_PROFILES =
     [[(''name'', PStr ''Birds''), (''filename'', PStr ''birds.wav'')],
      [(''name'', PStr ''Crickets''), (''filename'', PStr ''cricket.wav'')],
      [(''name'', PStr ''Fire''), (''filename'', PStr ''fire.wav'')],
      [(''name'', PStr ''Rainfall''), (''filename'', PStr ''rain.wav'')],
      [(''name'', PStr ''Singing Bowl''), (''filename'', PStr ''singingbowl.wav'')],
      [(''name'', PStr ''Ocean Waves''), (''filename'', PStr ''waves.wav'')],
      [(''name'', PStr ''Wind''), (''filename'', PStr ''wind.wav'')],
      [(''name'', PStr ''Coffee Shop''), (''filename'', PStr ''coffeeshop.wav'')]]"

definition getitem :: "profile \<Rightarrow> string \<Rightarrow> error + pval" where
  "getitem p k = (case map_of p k of None \<Rightarrow> Inl (KeyError k) | Some v \<Rightarrow> Inr v)"

fun format_pval :: "pval \<Rightarrow> string" where
  "format_pval (PStr s) = s"
| "format_pval (PGen g) = ''<function>''"

datatype file_state = Missing | Undecodable string | Decodable sound

definition SOUNDS_DIR :: "string \<Rightarrow> string" where
  "SOUNDS_DIR base_dir = base_dir @ ''/sounds-wav''"

definition call_fallback ::
  "(16 word ndarray \<Rightarrow> error + sound) \<Rightarrow> (int \<times> int \<times> int) option \<Rightarrow> profile \<Rightarrow> string list
     \<Rightarrow> string list \<times> (error + sound)" where
  "call_fallback make_sound init_info profile printed =
     (case getitem profile ''fallback'' of
        Inl e \<Rightarrow> (printed, Inl e)
      | Inr (PStr s) \<Rightarrow> (printed, Inl TypeError)
      | Inr (PGen generator) \<Rightarrow>
          (case create_sound make_sound init_info generator of
             (more, r) \<Rightarrow> (printed @ more, r)))"

definition load_sound ::
  "(16 word ndarray \<Rightarrow> error + sound) \<Rightarrow> (int \<times> int \<times> int) option \<Rightarrow> string
     \<Rightarrow> (string \<Rightarrow> file_state) \<Rightarrow> profile \<Rightarrow> string list \<times> (error + sound)" where
  "load_sound make_sound init_info base_dir fs profile =
     (case getitem profile ''filename'' of
        Inl e \<Rightarrow> ([], Inl e)
      | Inr (PGen g) \<Rightarrow> ([], Inl TypeError)
      | Inr (PStr filename) \<Rightarrow>
          let file_path = SOUNDS_DIR base_dir @ ''/'' @ filename
          in case fs file_path of
               Decodable s \<Rightarrow> ([], Inr s)
             | Undecodable err \<Rightarrow>
                 call_fallback make_sound init_info profile
                   [''Unable to load '' @ file_path @ '': '' @ err
                      @ ''. Falling back to generated audio.'']
             | Missing \<Rightarrow>
                 (case getitem profile ''name'' of
                    Inl e \<Rightarrow> ([], Inl e)
                  | Inr nm \<Rightarrow>
                      call_fallback make_sound init_info profile
                        [''Missing audio file for '' @ format_pval nm @ '': expected ''
                           @ file_path @ ''.'']))"

subsection \<open>The mixer application\<close>

text \<open>
  The state of \<open>AmbientMixerApp\<close>: the dicts \<open>channels\<close> and \<open>value_labels\<close> in
  insertion order, and the two library resources the handlers act on: whether the
  pygame mixer is initialised and whether the Tk root window still exists. A channel
  records the gain last handed to \<open>set_volume\<close> and whether it is playing.

  Library behaviour the handlers rely on: \<open>Channel.set_volume\<close> and \<open>Channel.stop\<close>
  raise \<open>pygame.error\<close> when the mixer is not initialised; \<open>pygame.mixer.quit()\<close>
  uninitialises the mixer and does nothing when it is not initialised;
  \<open>Tk.destroy()\<close> raises \<open>TclError\<close> once the application has been destroyed.
\<close>

record channel =
  volume :: real
  playing :: bool

record app =
  channels :: "(string \<times> channel) list"
  value_labels :: "(string \<times> string) list"
  mixer_init :: bool
  window_alive :: bool

definition set_volume :: "bool \<Rightarrow> real \<Rightarrow> channel \<Rightarrow> error + channel" where
  "set_volume mixer_on v c =
     (if mixer_on then Inr (c\<lparr>volume := v\<rparr>) else Inl (PygameError ''mixer not initialized''))"

definition channel_stop :: "bool \<Rightarrow> channel \<Rightarrow> error + channel" where
  "channel_stop mixer_on c =
     (if mixer_on then Inr (c\<lparr>playing := False\<rparr>) else Inl (PygameError ''mixer not initialized''))"

text \<open>
  \<open>raw_value / 100.0\<close> and \<open>volume * 100\<close> are float64 operations; the label is
  written only for a name that has one.
\<close>

definition on_volume_change :: "string \<Rightarrow> real \<Rightarrow> app \<Rightarrow> error + app" where
  "on_volume_change name raw_value st =
     (let v = max 0 (min (float_round Float64 (raw_value / 100)) 1)
      in case (case map_of (channels st) name of
                 None \<Rightarrow> Inr st
               | Some c \<Rightarrow>
                   (case set_volume (mixer_init st) v c of
                      Inl e \<Rightarrow> Inl e
                    | Inr c' \<Rightarrow> Inr (st\<lparr>channels := AList.update name c' (channels st)\<rparr>))) of
           Inl e \<Rightarrow> Inl e
         | Inr st1 \<Rightarrow>
             (case map_of (value_labels st1) name of
                None \<Rightarrow> Inr st1
              | Some old \<Rightarrow>
                  (case int_of_float (float_round Float64 (v * 100)) of
                     Inl e \<Rightarrow> Inl e
                   | Inr percent \<Rightarrow>
                       Inr (st1\<lparr>value_labels :=
                         AList.update name (show_int percent @ ''%'') (value_labels st1)\<rparr>))))"

text \<open>The loop \<open>for channel in self.channels.values(): channel.stop()\<close>.\<close>

fun stop_all :: "bool \<Rightarrow> (string \<times> channel) list \<Rightarrow> error + (string \<times> channel) list" where
  "stop_all mixer_on [] = Inr []"
| "stop_all mixer_on ((name, c) # rest) =
     (case channel_stop mixer_on c of
        Inl e \<Rightarrow> Inl e
      | Inr c' \<Rightarrow>
          (case stop_all mixer_on rest of
             Inl e \<Rightarrow> Inl e
           | Inr rest' \<Rightarrow> Inr ((name, c') # rest')))"

definition on_close :: "app \<Rightarrow> error + app" where
  "on_close st =
     (case stop_all (mixer_init st) (channels st) of
        Inl e \<Rightarrow> Inl e
      | Inr stopped \<Rightarrow>
          let st1 = st\<lparr>channels := stopped, mixer_init := False\<rparr>
          in if window_alive st1 then Inr (st1\<lparr>window_alive := False\<rparr>)
             else Inl (TclError ''application has been destroyed''))"

text \<open>
  The application as \<open>__init__\<close> leaves it: one looping channel at gain 0.5 and one
  label \<open>50%\<close> per profile name.
\<close>

definition profile_names :: "string list" where
  "profile_names =
     [''Birds'', ''Crickets'', ''Fire'', ''Rainfall'', ''Singing Bowl'', ''Ocean Waves'', ''Wind'',
      ''Coffee Shop'']"

definition running_app :: app where
  "running_app =
     \<lparr>channels = map (\<lambda>n. (n, \<lparr>volume = 1 / 2, playing = True\<rparr>)) profile_names,
      value_labels = map (\<lambda>n. (n, ''50%'')) profile_names,
      mixer_init = True, window_alive = True\<rparr>"

definition closed_app :: app where
  "closed_app =
     \<lparr>channels = map (\<lambda>n. (n, \<lparr>volume = 1 / 2, playing = False\<rparr>)) profile_names,
      value_labels = map (\<lambda>n. (n, ''50%'')) profile_names,
      mixer_init = False, window_alive = False\<rparr>"

subsection \<open>The formulas of the specification\<close>

text \<open>
  Three formulas as the specification words them, to be compared with the code:
  the sample count \<open>round(sampleRate \<times> durationSeconds)\<close>, the fade length
  \<open>min(fadeDurationSeconds \<times> sampleRate, floor(len(signal)/2))\<close>, and the fixed-point
  conversion \<open>clamp(round(sample \<times> 32767), -32768, 32767)\<close>.
\<close>

definition spec_sample_count :: "real \<Rightarrow> int" where
  "spec_sample_count duration_seconds = round (real_of_int SAMPLE_RATE * duration_seconds)"

definition spec_fade_length :: "real \<Rightarrow> nat \<Rightarrow> real" where
  "spec_fade_length fade_duration n =
     min (fade_duration * real_of_int SAMPLE_RATE) (real_of_int (int n div 2))"

definition spec_sample_int16 :: "real \<Rightarrow> int" where
  "spec_sample_int16 x = max (- 32768) (min (round (x * 32767)) 32767)"

section \<open>Properties\<close>

subsection \<open>Rounding\<close>

lemma pow2_powr: "pow2 e = 2 powr real_of_int e"
  unfolding pow2_def by (subst powr_int) simp_all

lemma pow2_pos [simp]: "0 < pow2 e"
  by (simp add: pow2_powr)

lemma pow2_add: "pow2 (a + b) = pow2 a * pow2 b"
  by (simp add: pow2_powr powr_add)

lemma pow2_le_iff [simp]: "pow2 a \<le> pow2 b \<longleftrightarrow> a \<le> b"
  by (simp add: pow2_powr)

lemma pow2_less_iff [simp]: "pow2 a < pow2 b \<longleftrightarrow> a < b"
  by (simp add: pow2_powr)

lemma pow2_nat: "pow2 (int n) = real_of_int (2 ^ n)"
  by (simp add: pow2_def)

lemma pow2_0 [simp]: "pow2 0 = 1"
  by (simp add: pow2_def)

lemma rne_of_int [simp]: "rne (real_of_int n) = n"
  by (simp add: rne_def)

lemma rne_ge_floor: "\<lfloor>z\<rfloor> \<le> rne z"
  by (simp add: rne_def Let_def)

lemma rne_le_floor: "rne z \<le> \<lfloor>z\<rfloor> + 1"
  by (simp add: rne_def Let_def)

lemma rne_mono: "z \<le> w \<Longrightarrow> rne z \<le> rne w"
proof -
  assume zw: "z \<le> w"
  then have fl: "\<lfloor>z\<rfloor> \<le> \<lfloor>w\<rfloor>" by (rule floor_mono)
  show ?thesis
  proof (cases "\<lfloor>z\<rfloor> = \<lfloor>w\<rfloor>")
    case True
    with zw show ?thesis
      by (auto simp: rne_def Let_def)
  next
    case False
    with fl have "\<lfloor>z\<rfloor> + 1 \<le> \<lfloor>w\<rfloor>" by simp
    with rne_le_floor [of z] rne_ge_floor [of w] show ?thesis by linarith
  qed
qed

lemma rne_err: "\<bar>real_of_int (rne z) - z\<bar> \<le> 1 / 2"
proof -
  have "real_of_int \<lfloor>z\<rfloor> \<le> z" "z < real_of_int \<lfloor>z\<rfloor> + 1" by linarith+
  then show ?thesis
    by (auto simp: rne_def Let_def abs_le_iff)
qed

lemma rne_minus: "rne (- z) = - rne z"
proof (cases "z = real_of_int \<lfloor>z\<rfloor>")
  case True
  then obtain n where "z = real_of_int n" ..
  then have "- z = real_of_int (- n)" by simp
  with \<open>z = real_of_int n\<close> show ?thesis
    by (simp only: rne_of_int)
next
  case False
  then have fm: "\<lfloor>- z\<rfloor> = - \<lfloor>z\<rfloor> - 1"
    by (simp add: floor_minus ceiling_altdef)
  have "real_of_int \<lfloor>z\<rfloor> < z" "z < real_of_int \<lfloor>z\<rfloor> + 1"
    using False by linarith+
  then show ?thesis
    unfolding rne_def Let_def fm by (auto simp: algebra_simps)
qed

lemma rne_nonneg: "0 \<le> z \<Longrightarrow> 0 \<le> rne z"
  using rne_mono [of 0 z] by (simp add: rne_def)

lemma emin_le_emax: "emin dt \<le> emax dt"
  by (cases dt) simp_all

lemma prec_pos: "0 < prec dt"
  by (cases dt) simp_all

lemma expo_mem_iff:
  "e \<in> set (emin dt # filter (\<lambda>e. pow2 e \<le> a) [emin dt..emax dt]) \<longleftrightarrow>
     e = emin dt \<or> (emin dt \<le> e \<and> e \<le> emax dt \<and> pow2 e \<le> a)"
  by auto

lemma Max_set_in: "xs \<noteq> [] \<Longrightarrow> Max (set xs) \<in> set xs" for xs :: "int list"
  by (intro Max_in) simp_all

lemma Max_set_ge: "x \<in> set xs \<Longrightarrow> x \<le> Max (set xs)" for xs :: "int list"
  by (intro Max_ge) simp_all

lemma expo_in: "expo dt a = emin dt \<or> (emin dt \<le> expo dt a \<and> expo dt a \<le> emax dt \<and> pow2 (expo dt a) \<le> a)"
proof -
  have "expo dt a \<in> set (emin dt # filter (\<lambda>e. pow2 e \<le> a) [emin dt..emax dt])"
    unfolding expo_def by (rule Max_set_in) simp
  then show ?thesis by (simp only: expo_mem_iff)
qed

lemma expo_upper:
  assumes "emin dt \<le> e" "e \<le> emax dt" "pow2 e \<le> a"
  shows "e \<le> expo dt a"
proof -
  have "e \<in> set (emin dt # filter (\<lambda>e. pow2 e \<le> a) [emin dt..emax dt])"
    using assms by (simp only: expo_mem_iff) simp
  then show ?thesis
    unfolding expo_def by (rule Max_set_ge)
qed

lemma expo_ge: "emin dt \<le> expo dt a"
  using expo_in [of dt a] by auto

lemma expo_le: "expo dt a \<le> emax dt"
  using expo_in [of dt a] emin_le_emax [of dt] by auto

lemma expo_pow2_le:
  assumes "emin dt < expo dt a"
  shows "pow2 (expo dt a) \<le> a"
  using expo_in [of dt a] assms by auto

lemma expo_less:
  assumes "expo dt a < emax dt"
  shows "a < pow2 (expo dt a + 1)"
proof (rule ccontr)
  assume "\<not> a < pow2 (expo dt a + 1)"
  then have "pow2 (expo dt a + 1) \<le> a" by simp
  with assms expo_ge [of dt a] have "expo dt a + 1 \<le> expo dt a"
    by (intro expo_upper) simp_all
  then show False by simp
qed

lemma expo_mono:
  assumes "a \<le> b"
  shows "expo dt a \<le> expo dt b"
proof (cases "expo dt a = emin dt")
  case True
  then show ?thesis using expo_ge [of dt b] by simp
next
  case False
  with expo_in [of dt a] have "emin dt \<le> expo dt a" "expo dt a \<le> emax dt" "pow2 (expo dt a) \<le> a"
    by auto
  with assms show ?thesis using expo_upper [of dt "expo dt a" b] by simp
qed

lemma expo_eq:
  assumes "pow2 e \<le> a" "a < pow2 (e + 1)" "emin dt \<le> e" "e \<le> emax dt"
  shows "expo dt a = e"
proof (rule antisym)
  show "e \<le> expo dt a" using assms by (intro expo_upper) simp_all
  show "expo dt a \<le> e"
  proof (cases "expo dt a = emin dt")
    case True
    with assms(3) show ?thesis by simp
  next
    case False
    with expo_in [of dt a] have "pow2 (expo dt a) \<le> a" by auto
    with assms(2) have "pow2 (expo dt a) < pow2 (e + 1)" by linarith
    then show ?thesis by simp
  qed
qed

lemma pow2_nonneg [simp]: "0 \<le> pow2 e"
  using pow2_pos [of e] by linarith

lemma rne_numeral [simp]: "rne (numeral n) = numeral n"
  using rne_of_int [of "numeral n"] by simp

lemma float_round_zero [simp]: "float_round dt 0 = 0"
  by (simp add: float_round_def rne_def)

lemma float_round_minus: "float_round dt (- x) = - float_round dt x"
  by (simp add: float_round_def Let_def rne_minus)

lemma float_round_nonneg:
  assumes "0 \<le> x"
  shows "0 \<le> float_round dt x"
proof -
  have "0 \<le> rne (x / pow2 (expo dt \<bar>x\<bar> - int (prec dt) + 1))"
    using assms by (intro rne_nonneg) simp
  then show ?thesis
    by (simp add: float_round_def Let_def)
qed

lemma float_round_eval:
  assumes "pow2 e \<le> \<bar>x\<bar>" "\<bar>x\<bar> < pow2 (e + 1)" "emin dt \<le> e" "e \<le> emax dt"
  shows "float_round dt x =
     pow2 (e - int (prec dt) + 1) * real_of_int (rne (x / pow2 (e - int (prec dt) + 1)))"
  using expo_eq [OF assms] by (simp add: float_round_def Let_def)

lemma float_round_one [simp]: "float_round dt 1 = 1"
proof (cases dt)
  case Float32
  show ?thesis
    unfolding Float32 by (subst float_round_eval [where e = 0]) (simp_all add: pow2_def)
next
  case Float64
  show ?thesis
    unfolding Float64 by (subst float_round_eval [where e = 0]) (simp_all add: pow2_def)
qed

lemma pow2_neq0 [simp]: "pow2 e \<noteq> 0"
  using pow2_pos [of e] by linarith

lemma pow2_int: "0 \<le> p \<Longrightarrow> pow2 p = real_of_int (2 ^ nat p)"
  by (simp add: pow2_def)

lemma rne_le_pow2:
  assumes "z \<le> pow2 p" "0 \<le> p"
  shows "real_of_int (rne z) \<le> pow2 p"
proof -
  from assms have "z \<le> real_of_int (2 ^ nat p)" by (simp only: pow2_int)
  then have "rne z \<le> rne (real_of_int (2 ^ nat p))" by (rule rne_mono)
  then have "rne z \<le> 2 ^ nat p" by (simp only: rne_of_int)
  then have "real_of_int (rne z) \<le> real_of_int (2 ^ nat p)" by (simp only: of_int_le_iff)
  with assms(2) show ?thesis by (simp only: pow2_int)
qed

lemma rne_ge_pow2:
  assumes "pow2 p \<le> z" "0 \<le> p"
  shows "pow2 p \<le> real_of_int (rne z)"
proof -
  from assms have "real_of_int (2 ^ nat p) \<le> z" by (simp only: pow2_int)
  then have "rne (real_of_int (2 ^ nat p)) \<le> rne z" by (rule rne_mono)
  then have "2 ^ nat p \<le> rne z" by (simp only: rne_of_int)
  then have "real_of_int (2 ^ nat p) \<le> real_of_int (rne z)" by (simp only: of_int_le_iff)
  with assms(2) show ?thesis by (simp only: pow2_int)
qed

lemma float_round_alt:
  "float_round dt x =
     pow2 (expo dt \<bar>x\<bar> - int (prec dt) + 1)
       * real_of_int (rne (x / pow2 (expo dt \<bar>x\<bar> - int (prec dt) + 1)))"
  by (simp add: float_round_def Let_def)

lemma float_round_mono_nonneg:
  assumes "0 \<le> x" "x \<le> y"
  shows "float_round dt x \<le> float_round dt y"
proof -
  define ex where "ex = expo dt \<bar>x\<bar>"
  define ey where "ey = expo dt \<bar>y\<bar>"
  define p where "p = int (prec dt)"
  have le: "ex \<le> ey"
    unfolding ex_def ey_def using assms by (intro expo_mono) simp
  have fx: "float_round dt x = pow2 (ex - p + 1) * real_of_int (rne (x / pow2 (ex - p + 1)))"
    and fy: "float_round dt y = pow2 (ey - p + 1) * real_of_int (rne (y / pow2 (ey - p + 1)))"
    by (simp_all add: float_round_alt ex_def ey_def p_def)
  show ?thesis
  proof (cases "ex = ey")
    case True
    have "x / pow2 (ey - p + 1) \<le> y / pow2 (ey - p + 1)"
      using assms by (simp add: divide_right_mono)
    then have "rne (x / pow2 (ey - p + 1)) \<le> rne (y / pow2 (ey - p + 1))"
      by (rule rne_mono)
    then show ?thesis
      unfolding fx fy True by (simp add: mult_left_mono)
  next
    case False
    with le have lt: "ex < ey" by simp
    have ppos: "0 < p" using prec_pos [of dt] by (simp add: p_def)
    have "ex < emax dt" using lt expo_le [of dt "\<bar>y\<bar>"] by (simp add: ey_def)
    then have xlt: "x < pow2 (ex + 1)"
      using expo_less [of dt "\<bar>x\<bar>"] assms by (simp add: ex_def)
    have "emin dt < ey" using lt expo_ge [of dt "\<bar>x\<bar>"] by (simp add: ex_def)
    then have yge: "pow2 ey \<le> y"
      using expo_pow2_le [of dt "\<bar>y\<bar>"] assms by (simp add: ey_def)
    have "pow2 (ex + 1) = pow2 (ex - p + 1) * pow2 p"
      by (simp add: pow2_add [symmetric])
    then have "x / pow2 (ex - p + 1) \<le> pow2 p"
      using xlt by (simp add: divide_le_eq mult.commute)
    then have "real_of_int (rne (x / pow2 (ex - p + 1))) \<le> pow2 p"
      using ppos by (intro rne_le_pow2) simp_all
    then have "float_round dt x \<le> pow2 (ex - p + 1) * pow2 p"
      unfolding fx by (simp add: mult_left_mono)
    then have 1: "float_round dt x \<le> pow2 (ex + 1)"
      by (simp add: pow2_add [symmetric])
    have "pow2 ey = pow2 (ey - p + 1) * pow2 (p - 1)"
      by (simp add: pow2_add [symmetric])
    then have "pow2 (p - 1) \<le> y / pow2 (ey - p + 1)"
      using yge by (simp add: le_divide_eq mult.commute)
    then have "pow2 (p - 1) \<le> real_of_int (rne (y / pow2 (ey - p + 1)))"
      using ppos by (intro rne_ge_pow2) simp_all
    then have "pow2 (ey - p + 1) * pow2 (p - 1) \<le> float_round dt y"
      unfolding fy by (simp add: mult_left_mono)
    then have 2: "pow2 ey \<le> float_round dt y"
      by (simp add: pow2_add [symmetric])
    from lt have "pow2 (ex + 1) \<le> pow2 ey" by simp
    with 1 2 show ?thesis by linarith
  qed
qed

lemma float_round_mono:
  assumes "x \<le> y"
  shows "float_round dt x \<le> float_round dt y"
proof (cases "0 \<le> x")
  case True
  then show ?thesis using assms by (rule float_round_mono_nonneg)
next
  case False
  show ?thesis
  proof (cases "0 \<le> y")
    case True
    from False have "0 \<le> float_round dt (- x)" by (intro float_round_nonneg) simp
    then have "float_round dt x \<le> 0" by (simp add: float_round_minus)
    with float_round_nonneg [OF True, of dt] show ?thesis by linarith
  next
    case y: False
    with assms have "0 \<le> - y" "- y \<le> - x" by simp_all
    then have "float_round dt (- y) \<le> float_round dt (- x)" by (rule float_round_mono_nonneg)
    then show ?thesis by (simp add: float_round_minus)
  qed
qed

lemma float_round_err:
  assumes "pow2 (emin dt) \<le> \<bar>x\<bar>"
  shows "\<bar>float_round dt x - x\<bar> \<le> \<bar>x\<bar> * pow2 (- int (prec dt))"
proof -
  define e where "e = expo dt \<bar>x\<bar>"
  define q where "q = pow2 (e - int (prec dt) + 1)"
  have qpos: "0 < q" by (simp add: q_def)
  have "pow2 e \<le> \<bar>x\<bar>"
  proof (cases "emin dt < e")
    case True
    then show ?thesis using expo_pow2_le [of dt "\<bar>x\<bar>"] by (simp add: e_def)
  next
    case False
    with expo_ge [of dt "\<bar>x\<bar>"] have "e = emin dt" by (simp add: e_def)
    with assms show ?thesis by simp
  qed
  have "float_round dt x - x = q * (real_of_int (rne (x / q)) - x / q)"
    using qpos by (simp add: float_round_alt [of dt x] e_def q_def right_diff_distrib)
  then have "\<bar>float_round dt x - x\<bar> = q * \<bar>real_of_int (rne (x / q)) - x / q\<bar>"
    using qpos by (simp add: abs_mult)
  also have "\<dots> \<le> q * (1 / 2)"
    using qpos rne_err [of "x / q"] by (intro mult_left_mono) simp_all
  also have "q * (1 / 2) = pow2 e * pow2 (- int (prec dt))"
    by (simp add: q_def pow2_add [symmetric]) (simp add: pow2_powr powr_add powr_diff)
  also have "\<dots> \<le> \<bar>x\<bar> * pow2 (- int (prec dt))"
    using \<open>pow2 e \<le> \<bar>x\<bar>\<close> by (intro mult_right_mono) simp_all
  finally show ?thesis .
qed

lemma rne_neg_numeral [simp]: "rne (- numeral n) = - numeral n"
  by (simp add: rne_minus)

lemma float_round_half [simp]: "float_round dt (1 / 2) = 1 / 2"
  by (cases dt) (simp_all add: float_round_eval [where e = "- 1"] pow2_def)

lemma float_round_quarter [simp]: "float_round dt (1 / 4) = 1 / 4"
  by (cases dt) (simp_all add: float_round_eval [where e = "- 2"] pow2_def)

lemma float_round_top:
  assumes "pow2 (emax dt + 1) \<le> x"
  shows "pow2 (emax dt + 1) \<le> float_round dt x"
proof -
  have e: "expo dt \<bar>pow2 (emax dt + 1)\<bar> = emax dt"
  proof (rule antisym)
    show "expo dt \<bar>pow2 (emax dt + 1)\<bar> \<le> emax dt" by (rule expo_le)
    show "emax dt \<le> expo dt \<bar>pow2 (emax dt + 1)\<bar>"
      using emin_le_emax [of dt] by (intro expo_upper) simp_all
  qed
  have split: "pow2 (emax dt + 1) = pow2 (emax dt - int (prec dt) + 1) * pow2 (int (prec dt))"
    by (simp add: pow2_add [symmetric])
  then have "pow2 (emax dt + 1) / pow2 (emax dt - int (prec dt) + 1) = real_of_int (2 ^ prec dt)"
    by (simp add: pow2_int)
  then have "float_round dt (pow2 (emax dt + 1)) = pow2 (emax dt - int (prec dt) + 1) * real_of_int (2 ^ prec dt)"
    unfolding float_round_alt [of dt "pow2 (emax dt + 1)"] e by (simp only: rne_of_int)
  also have "\<dots> = pow2 (emax dt + 1)"
    using split by (simp add: pow2_int)
  finally have "float_round dt (pow2 (emax dt + 1)) = pow2 (emax dt + 1)" .
  with float_round_mono [OF assms, of dt] show ?thesis by simp
qed

lemma py_int_bounds:
  assumes "real_of_int lo \<le> x" "x \<le> real_of_int hi"
  shows "lo \<le> py_int x" "py_int x \<le> hi"
  using assms by (auto simp: py_int_def le_floor_iff floor_le_iff ceiling_le_iff le_ceiling_iff)

lemma int_of_float_finite: "\<bar>v\<bar> < pow2 1024 \<Longrightarrow> int_of_float v = Inr (py_int v)"
  by (simp add: int_of_float_def)

lemma int_of_float_infinite:
  "pow2 1024 \<le> \<bar>v\<bar> \<Longrightarrow>
     int_of_float v = Inl (OverflowError ''cannot convert float infinity to integer'')"
  by (simp add: int_of_float_def)

lemma pow2_1024_gt: "x \<le> 2 ^ 64 \<Longrightarrow> x < pow2 1024"
proof -
  assume "x \<le> 2 ^ 64"
  moreover have "(2::real) ^ 64 = pow2 64" by (simp add: pow2_def)
  moreover have "pow2 64 < pow2 1024" by simp
  ultimately show ?thesis by linarith
qed

lemma float_round_abs_le:
  assumes "\<bar>x\<bar> \<le> b" "float_round dt b = b"
  shows "\<bar>float_round dt x\<bar> \<le> b"
proof -
  from assms(1) have "- b \<le> x" "x \<le> b" by linarith+
  then have "float_round dt (- b) \<le> float_round dt x" "float_round dt x \<le> float_round dt b"
    using float_round_mono [of "- b" x dt] float_round_mono [of x b dt] by simp_all
  with assms(2) show ?thesis by (simp add: float_round_minus abs_le_iff)
qed

lemma float_round_scale_le:
  assumes "float_round dt x = x" "0 \<le> r" "r \<le> 1"
  shows "\<bar>float_round dt (x * r)\<bar> \<le> \<bar>x\<bar>"
proof -
  have "\<bar>x * r\<bar> \<le> \<bar>x\<bar>"
    using assms(2,3) by (simp add: abs_mult mult_left_le)
  moreover have "float_round dt \<bar>x\<bar> = \<bar>x\<bar>"
    using assms(1) by (cases "0 \<le> x") (simp_all add: float_round_minus)
  ultimately show ?thesis by (rule float_round_abs_le)
qed

lemma float_round_eps: "float_round Float64 (1 / 2 ^ 53) = 1 / 2 ^ 53"
  by (subst float_round_eval [where e = "- 53"]) (simp_all add: pow2_def)

lemma ramp_step_le:
  assumes "1 \<le> m" "m \<le> 2 ^ 53" "i < m"
  shows "real i * float_round Float64 (1 / real m) \<le> 1"
proof -
  define s where "s = float_round Float64 (1 / real m)"
  have mpos: "0 < real m" using assms(1) by simp
  have mle: "real m \<le> 2 ^ 53"
    using assms(2) by (metis of_nat_le_iff of_nat_numeral of_nat_power)
  have inv: "1 / 2 ^ 53 \<le> 1 / real m"
    using mpos mle by (simp add: frac_le)
  have "pow2 (- 1022) \<le> pow2 (- 53)" by simp
  also have "pow2 (- 53) = 1 / 2 ^ 53" by (simp add: pow2_def)
  also note inv
  finally have low: "pow2 (emin Float64) \<le> \<bar>1 / real m\<bar>" using mpos by simp
  from float_round_err [OF low] have "\<bar>s - 1 / real m\<bar> \<le> \<bar>1 / real m\<bar> * pow2 (- 53)"
    by (simp add: s_def)
  then have "s \<le> 1 / real m + 1 / real m * (1 / 2 ^ 53)"
    using mpos by (simp add: pow2_def abs_le_iff)
  then have "s * real m \<le> (1 / real m + 1 / real m * (1 / 2 ^ 53)) * real m"
    using mpos by (intro mult_right_mono) simp_all
  also have "\<dots> = 1 + 1 / 2 ^ 53"
    using mpos by (simp add: field_simps)
  finally have sle: "s * real m \<le> 1 + 1 / 2 ^ 53" .
  have sge: "1 / 2 ^ 53 \<le> s"
    using float_round_mono [OF inv, of Float64] by (simp only: float_round_eps s_def)
  have snn: "0 \<le> s" using sge by simp
  have "real i \<le> real m - 1" using assms(3) by linarith
  then have "real i * s \<le> (real m - 1) * s"
    using snn by (rule mult_right_mono)
  also have "\<dots> = s * real m - s" by (simp add: algebra_simps)
  also have "\<dots> \<le> 1" using sle sge by linarith
  finally show ?thesis by (simp add: s_def)
qed

lemma float_round_unit:
  assumes "0 \<le> x" "x \<le> 1"
  shows "0 \<le> float_round dt x" "float_round dt x \<le> 1"
  using float_round_nonneg [OF assms(1), of dt] float_round_mono [OF assms(2), of dt]
  by simp_all

lemma length_np_linspace: "length (np_linspace dt a b n) = n"
  by (simp add: np_linspace_def Let_def)

lemma np_linspace_first: "0 < k \<Longrightarrow> np_linspace dt 0 1 k ! 0 = 0"
  by (simp add: np_linspace_def Let_def nth_list_update)

lemma np_linspace_unit:
  assumes "i < k" "k \<le> 2 ^ 53"
  shows "0 \<le> np_linspace dt 0 1 k ! i \<and> np_linspace dt 0 1 k ! i \<le> 1"
proof -
  define step where "step = float_round Float64 (1 / real (k - 1))"
  define yv where "yv =
     (if k - 1 = 0 then float_round Float64 (real i * 1)
      else if step = 0 then float_round Float64 (float_round Float64 (real i / real (k - 1)) * 1)
      else float_round Float64 (real i * step))"
  define v where "v = (if 1 < k \<and> i = k - 1 then 1 else float_round Float64 (yv + 0))"
  have nth: "np_linspace dt 0 1 k ! i = float_round dt v"
    using assms(1)
    by (simp add: np_linspace_def Let_def nth_list_update v_def yv_def step_def)
  have "0 \<le> v \<and> v \<le> 1"
  proof (cases "1 < k \<and> i = k - 1")
    case True
    then show ?thesis by (simp add: v_def)
  next
    case False
    have "0 \<le> yv \<and> yv \<le> 1"
    proof (cases "k - 1 = 0")
      case True
      with assms(1) have "i = 0" by simp
      with True show ?thesis by (simp add: yv_def)
    next
      case k: False
      with False assms(1) have im: "i < k - 1" by linarith
      show ?thesis
      proof (cases "step = 0")
        case True
        have "0 \<le> real i / real (k - 1)" "real i / real (k - 1) \<le> 1"
          using im by simp_all
        then have "0 \<le> float_round Float64 (real i / real (k - 1))"
          "float_round Float64 (real i / real (k - 1)) \<le> 1"
          by (rule float_round_unit)+
        then have "0 \<le> float_round Float64 (float_round Float64 (real i / real (k - 1)) * 1)"
          "float_round Float64 (float_round Float64 (real i / real (k - 1)) * 1) \<le> 1"
          using float_round_unit [of "float_round Float64 (real i / real (k - 1)) * 1" Float64]
          by simp_all
        with k True show ?thesis by (simp add: yv_def)
      next
        case s: False
        have m: "1 \<le> k - 1" "k - 1 \<le> 2 ^ 53" using k assms(2) by simp_all
        have "real i * step \<le> 1"
          unfolding step_def using m im by (rule ramp_step_le)
        moreover have "0 \<le> step"
          unfolding step_def by (intro float_round_nonneg) simp
        then have "0 \<le> real i * step" by simp
        ultimately have "0 \<le> float_round Float64 (real i * step)"
          "float_round Float64 (real i * step) \<le> 1"
          using float_round_unit [of "real i * step" Float64] by simp_all
        with k s show ?thesis by (simp add: yv_def)
      qed
    qed
    then have "0 \<le> float_round Float64 (yv + 0)" "float_round Float64 (yv + 0) \<le> 1"
      using float_round_unit [of "yv + 0" Float64] by simp_all
    with False show ?thesis by (simp add: v_def)
  qed
  then show ?thesis
    unfolding nth using float_round_unit [of v dt] by simp
qed

lemma fade_len_half: "fade_len fd n = Inr c \<Longrightarrow> c \<le> int n div 2"
  by (auto simp: fade_len_def split: sum.splits)

lemma fade_len_Inr:
  "\<bar>float_round Float64 (fd * 44100)\<bar> < pow2 1024 \<Longrightarrow>
     fade_len fd n = Inr (min (py_int (float_round Float64 (fd * 44100))) (int n div 2))"
  by (simp add: fade_len_def SAMPLE_RATE_def int_of_float_finite)

lemma fade_len_Inl:
  "pow2 1024 \<le> \<bar>float_round Float64 (fd * 44100)\<bar> \<Longrightarrow>
     fade_len fd n = Inl (OverflowError ''cannot convert float infinity to integer'')"
  by (simp add: fade_len_def SAMPLE_RATE_def int_of_float_infinite)

lemma apply_fade_edges_error: "fade_len fd (length xs) = Inl e \<Longrightarrow> apply_fade_edges dt xs fd = Inl e"
  by (simp add: apply_fade_edges_def)

lemma apply_fade_edges_noop:
  "fade_len fd (length xs) = Inr c \<Longrightarrow> c \<le> 0 \<Longrightarrow> apply_fade_edges dt xs fd = Inr xs"
  by (simp add: apply_fade_edges_def)

lemma apply_fade_edges_unfold:
  assumes "fade_len fd (length xs) = Inr c" "1 \<le> c"
  shows "apply_fade_edges dt xs fd =
    Inr (let k = nat c;
             s1 = map2 (\<lambda>x r. float_round dt (x * r)) (take k xs) (np_linspace dt 0 1 k) @ drop k xs
         in take (length s1 - k) s1
              @ map2 (\<lambda>x r. float_round dt (x * r)) (drop (length s1 - k) s1)
                  (rev (np_linspace dt 0 1 k)))"
  using assms by (simp add: apply_fade_edges_def Let_def)

text \<open>
  The result of the fade, sample by sample: the first \<open>k\<close> samples are scaled by the
  rising ramp, the last \<open>k\<close> by the ramp read backwards, the rest are kept.
\<close>

lemma apply_fade_edges_nth:
  assumes fl: "fade_len fd (length xs) = Inr c" and c: "1 \<le> c"
  shows "\<exists>out. apply_fade_edges dt xs fd = Inr out \<and> length out = length xs \<and>
     (\<forall>i<length xs. out ! i =
       (if i < nat c then float_round dt (xs ! i * np_linspace dt 0 1 (nat c) ! i)
        else if i < length xs - nat c then xs ! i
        else float_round dt (xs ! i * np_linspace dt 0 1 (nat c) ! (length xs - 1 - i))))"
proof -
  define k where "k = nat c"
  define n where "n = length xs"
  define R where "R = np_linspace dt 0 1 k"
  have k: "1 \<le> k" "2 * k \<le> n"
    using c fade_len_half [OF fl] by (auto simp: k_def n_def)
  have lenR: "length R = k" by (simp add: R_def length_np_linspace)
  define s1 where "s1 = map2 (\<lambda>x r. float_round dt (x * r)) (take k xs) R @ drop k xs"
  have len1: "length s1 = n"
    using k by (simp add: s1_def lenR n_def)
  have s1_nth: "s1 ! j = (if j < k then float_round dt (xs ! j * R ! j) else xs ! j)"
    if "j < n" for j
    using that k by (auto simp: s1_def nth_append lenR n_def)
  define out where
    "out = take (n - k) s1 @ map2 (\<lambda>x r. float_round dt (x * r)) (drop (n - k) s1) (rev R)"
  have eq: "apply_fade_edges dt xs fd = Inr out"
    unfolding apply_fade_edges_unfold [OF fl c] Let_def k_def [symmetric] R_def [symmetric]
      s1_def [symmetric] len1 out_def ..
  have len: "length out = n"
    using k by (simp add: out_def len1 lenR)
  have nth: "out ! i =
       (if i < k then float_round dt (xs ! i * R ! i)
        else if i < n - k then xs ! i
        else float_round dt (xs ! i * R ! (n - 1 - i)))" if i: "i < n" for i
  proof (cases "i < n - k")
    case True
    then have "out ! i = s1 ! i"
      by (simp add: out_def nth_append len1)
    with True i k show ?thesis
      by (auto simp: s1_nth)
  next
    case False
    with i k have ik: "\<not> i < k" "i - (n - k) < k" "k - Suc (i - (n - k)) = n - 1 - i"
      by auto
    from False i have "out ! i = float_round dt (s1 ! i * rev R ! (i - (n - k)))"
      using k by (simp add: out_def nth_append len1 lenR)
    also have "\<dots> = float_round dt (xs ! i * R ! (n - 1 - i))"
      using ik i by (simp add: rev_nth lenR s1_nth)
    finally show ?thesis
      using False ik by simp
  qed
  show ?thesis
    using eq len nth unfolding n_def k_def R_def by blast
qed

lemma float_round_neg_one [simp]: "float_round dt (- 1) = - 1"
  by (simp add: float_round_minus)

lemma float_round_neg_half [simp]: "float_round dt (- (1 / 2)) = - (1 / 2)"
  by (simp add: float_round_minus)

lemma float_round_eighth [simp]: "float_round dt (1 / 8) = 1 / 8"
  by (cases dt) (simp_all add: float_round_eval [where e = "- 3"] pow2_def)

lemma float_round_sixteenth [simp]: "float_round dt (1 / 16) = 1 / 16"
  by (cases dt) (simp_all add: float_round_eval [where e = "- 4"] pow2_def)





lemma float_round_352800: "float_round Float64 352800 = 352800"
  by (subst float_round_eval [where e = 18]) (simp_all add: pow2_def)

lemma float_round_44100: "float_round Float64 44100 = 44100"
  by (subst float_round_eval [where e = 15]) (simp_all add: pow2_def)

lemma float_round_sample_count_dyadic: "float_round Float64 (11025 / 4096) = 11025 / 4096"
  by (subst float_round_eval [where e = 1]) (simp_all add: pow2_def rne_def)

lemma float_round_default_fade: "float_round Float64 (DEFAULT_FADE_DURATION * 44100) = 4410"
  unfolding DEFAULT_FADE_DURATION_def
  by (subst float_round_eval [where e = 12]) (simp_all add: pow2_def rne_def)

lemma float_round_32767: "float_round Float32 32767 = 32767"
  by (subst float_round_eval [where e = 14]) (simp_all add: pow2_def)

lemma float_round_65534: "float_round Float32 65534 = 65534"
  by (subst float_round_eval [where e = 15]) (simp_all add: pow2_def)

lemma float_round_half_scale: "float_round Float32 (32767 / 2) = 32767 / 2"
  by (subst float_round_eval [where e = 13]) (simp_all add: pow2_def rne_def)

lemma float_round_quarter_scale: "float_round Float32 (32767 / 4) = 32767 / 4"
  by (subst float_round_eval [where e = 12]) (simp_all add: pow2_def rne_def)

text \<open>Roundings that are not exact: the effects of binary floating point the model keeps.\<close>

lemma float_round_29_percent:
  "float_round Float64 (29 / 100) = 5224175567749775 / 18014398509481984"
  "float_round Float64 (5224175567749775 / 18014398509481984 * 100)
     = 8162774324609023 / 281474976710656"
  by (subst float_round_eval [where e = "- 2"], simp_all add: pow2_def rne_def)
     (subst float_round_eval [where e = 4], simp_all add: pow2_def rne_def)

lemma float_round_three_hundredths:
  "float_round Float64 (44100 * (1080863910568919 / 36028797018963968)) = 1323"
  by (subst float_round_eval [where e = 10]) (simp_all add: pow2_def rne_def)

lemma float_round_three_samples:
  "float_round Float64 (5019522196927769 / 73786976294838206464 * 44100) = 3"
  by (subst float_round_eval [where e = 1]) (simp_all add: pow2_def rne_def)

lemma float_round_encode_near_integer: "float_round Float32 (32775 / 65536 * 32767) = 16387"
  by (subst float_round_eval [where e = 14]) (simp_all add: pow2_def rne_def)

lemma float_round_top_product:
  "pow2 1024 \<le> \<bar>float_round Float64 (pow2 1010 * 44100)\<bar>"
proof -
  have "pow2 1024 = pow2 1010 * pow2 14" by (simp add: pow2_add [symmetric])
  also have "pow2 14 = 16384" by (simp add: pow2_def)
  finally have "pow2 (emax Float64 + 1) \<le> pow2 1010 * 44100" by simp
  then have "pow2 (emax Float64 + 1) \<le> float_round Float64 (pow2 1010 * 44100)"
    by (rule float_round_top)
  then show ?thesis by simp
qed

lemma np_linspace_two: "np_linspace dt 0 1 2 = [0, 1]"
  by (simp add: np_linspace_def Let_def upt_rec numeral_2_eq_2)

lemma np_linspace_three: "np_linspace dt 0 1 3 = [0, 1 / 2, 1]"
  by (simp add: np_linspace_def Let_def upt_rec numeral_3_eq_3)

lemma fade_len_default: "fade_len DEFAULT_FADE_DURATION n = Inr (min 4410 (int n div 2))"
  by (simp add: fade_len_def SAMPLE_RATE_def float_round_default_fade int_of_float_finite
      pow2_1024_gt py_int_def)

lemma np_max_Max: "xs \<noteq> [] \<Longrightarrow> np_max xs = Inr (Max (set xs))"
  by (cases xs) (simp_all add: Max.set_eq_fold [symmetric])

lemma np_max_Inr_iff: "np_max xs = Inr p \<longleftrightarrow> xs \<noteq> [] \<and> p = Max (set xs)"
  by (cases xs) (auto simp: Max.set_eq_fold [symmetric])

lemma normalize_samples_empty: "\<exists>msg. normalize_samples dt [] = Inl (ValueError msg)"
  by (simp add: normalize_samples_def)

lemma normalize_samples_zero:
  assumes "xs \<noteq> []" "\<forall>x\<in>set xs. x = 0"
  shows "normalize_samples dt xs = Inr xs"
proof -
  from assms have "set (map abs xs) = {0}"
    by (cases xs) auto
  with assms(1) have "np_max (map abs xs) = Inr 0"
    by (simp add: np_max_Max del: set_map)
  then show ?thesis by (simp add: normalize_samples_def)
qed

lemma normalize_samples_peak:
  assumes "np_max (map abs xs) = Inr p" "p \<noteq> 0"
  shows "normalize_samples dt xs = Inr (map (\<lambda>x. float_round dt (x / p)) xs)"
    and "np_max (map abs (map (\<lambda>x. float_round dt (x / p)) xs)) = Inr 1"
proof -
  from assms(1) have ne: "xs \<noteq> []" and p: "p = Max (abs ` set xs)"
    by (auto simp: np_max_Inr_iff)
  have fin: "finite (abs ` set xs)" "abs ` set xs \<noteq> {}"
    using ne by auto
  have "p \<in> abs ` set xs"
    unfolding p using fin by (rule Max_in)
  then obtain a where a: "a \<in> set xs" "p = \<bar>a\<bar>" by auto
  with assms(2) have ppos: "0 < p" by simp
  have le: "\<bar>x\<bar> \<le> p" if "x \<in> set xs" for x
    unfolding p using that by (intro Max_ge) auto
  show "normalize_samples dt xs = Inr (map (\<lambda>x. float_round dt (x / p)) xs)"
    using assms by (simp add: normalize_samples_def)
  let ?ys = "map abs (map (\<lambda>x. float_round dt (x / p)) xs)"
  have "Max (set ?ys) = 1"
  proof (rule Max_eqI)
    show "finite (set ?ys)" by simp
    show "y \<le> 1" if "y \<in> set ?ys" for y
    proof -
      from that obtain x where x: "x \<in> set xs" "y = \<bar>float_round dt (x / p)\<bar>" by auto
      from le [OF x(1)] ppos have "\<bar>x / p\<bar> \<le> 1" by simp
      then show ?thesis unfolding x(2) by (rule float_round_abs_le) simp
    qed
    have "a / p = 1 \<or> a / p = - 1" using a ppos by (auto simp: abs_if field_simps)
    then have "\<bar>float_round dt (a / p)\<bar> = 1" by auto
    then show "1 \<in> set ?ys" using a(1) by (force simp: image_iff)
  qed
  with ne show "np_max ?ys = Inr 1"
    by (simp add: np_max_Max del: set_map)
qed

lemma encode_range:
  "- 32768 \<le> py_int (np_clip y (- 32768) 32767)" "py_int (np_clip y (- 32768) 32767) \<le> 32767"
proof -
  have "real_of_int (- 32768) \<le> np_clip y (- 32768) 32767"
    "np_clip y (- 32768) 32767 \<le> real_of_int 32767"
    by (simp_all add: np_clip_def)
  then show "- 32768 \<le> py_int (np_clip y (- 32768) 32767)"
    "py_int (np_clip y (- 32768) 32767) \<le> 32767"
    by (rule py_int_bounds)+
qed

lemma sint_encode_sample:
  "sint (encode_sample x) = py_int (np_clip (float_round Float32 (x * 32767)) (- 32768) 32767)"
  using encode_range [of "float_round Float32 (x * 32767)"]
  by (simp add: encode_sample_def astype_int16_def signed_of_int signed_take_bit_int_eq_self)

lemma encode_sample_values:
  "encode_sample 0 = 0" "encode_sample (1 / 2) = 16383" "encode_sample 1 = 32767"
  "encode_sample (1 / 4) = 8191"
  by (simp_all add: encode_sample_def astype_int16_def np_clip_def py_int_def
      float_round_32767 float_round_half_scale float_round_quarter_scale)






lemma stop_all_running:
  "\<exists>cs'. stop_all True cs = Inr cs' \<and> map fst cs' = map fst cs
      \<and> list_all (\<lambda>(k, c). \<not> playing c) cs'"
  by (induction cs) (auto simp: channel_stop_def)

lemma stop_all_uninitialised:
  "cs \<noteq> [] \<Longrightarrow> stop_all False cs = Inl (PygameError ''mixer not initialized'')"
  by (cases cs) (auto simp: channel_stop_def)

lemma on_close_not_twice:
  assumes "on_close st = Inr st'"
  shows "\<exists>e. on_close st' = Inl e"
proof -
  from assms have "\<not> window_alive st'"
    by (auto simp: on_close_def Let_def split: sum.splits if_splits)
  then show ?thesis
    by (auto simp: on_close_def Let_def split: sum.splits)
qed

lemma show_int_percent:
  "show_int 100 = ''100''" "show_int 75 = ''75''" "show_int 28 = ''28''" "show_int 2 = ''2''"
  by (simp_all add: show_int_def)

lemma fade_four: "apply_fade_edges dt [1, - 1 / 2, 1 / 4, 1 / 8] DEFAULT_FADE_DURATION
    = Inr [0, - 1 / 2, 1 / 4, 0]"
  by (simp add: apply_fade_edges_def fade_len_default np_linspace_two Let_def)

lemma fade_five: "apply_fade_edges dt [1, - 1 / 2, 1 / 4, 1 / 8, 1 / 16] DEFAULT_FADE_DURATION
    = Inr [0, - 1 / 2, 1 / 4, 1 / 8, 0]"
  by (simp add: apply_fade_edges_def fade_len_default np_linspace_two Let_def)

lemma fade_six_ones: "apply_fade_edges dt [1, 1, 1, 1, 1, 1] DEFAULT_FADE_DURATION
    = Inr [0, 1 / 2, 1, 1, 1 / 2, 0]"
  by (simp add: apply_fade_edges_def fade_len_default np_linspace_three Let_def)

lemma fade_len_negative: "fade_len (- 1) n = Inr (min (- 44100) (int n div 2))"
  by (simp add: fade_len_def SAMPLE_RATE_def float_round_minus float_round_44100
      int_of_float_finite pow2_1024_gt py_int_def)

lemma fade_len_dyadic: "fade_len (1 / 16384) 10 = Inr 2"
  by (simp add: fade_len_def SAMPLE_RATE_def float_round_eval [where e = 1] pow2_def rne_def
      int_of_float_def py_int_def)

lemma fade_len_three_samples:
  "fade_len (5019522196927769 / 73786976294838206464) 10 = Inr 3"
  by (simp add: fade_len_def SAMPLE_RATE_def float_round_eval [where e = 1] pow2_def rne_def
      int_of_float_def py_int_def)

lemma fade_len_overflow:
  "fade_len (pow2 1010) n = Inl (OverflowError ''cannot convert float infinity to integer'')"
  using float_round_top_product by (simp add: fade_len_def SAMPLE_RATE_def int_of_float_infinite)

lemma normalize_six_ones: "normalize_samples dt [1, 1, 1, 1, 1, 1] = Inr [1, 1, 1, 1, 1, 1]"
  by (simp add: normalize_samples_def)

lemma generate_three_hundredths:
  "\<exists>xs. generate_white_noise rng (1080863910568919 / 36028797018963968) = Inr xs
     \<and> length xs = 1323"
  by (simp add: generate_white_noise_def SAMPLE_RATE_def float_round_eval [where e = 10]
      pow2_def rne_def int_of_float_def py_int_def)

lemma encode_near_integer: "sint (encode_sample (32775 / 65536)) = 16387"
  by (simp add: sint_encode_sample float_round_eval [where e = 14] pow2_def rne_def
      np_clip_def py_int_def)

lemma create_sound_six_ones:
  "create_sound (layout_make_sound 1) (Some (44100, - 16, 2)) (\<lambda>u. [1, 1, 1, 1, 1, 1]) =
     ([''[AudioGen] Failed to create sound (channels=2, shape=(6, 2)): Array must be 1-dimensional for mono mixer. Attempting emergency mono fallback.''],
      Inr (Sound (Arr1 [0, 16383, 32767, 32767, 16383, 0])))"
  by (simp add: create_sound_def normalize_six_ones fade_six_ones encode_sample_values Let_def
      mixer_channels_def adapt_shape_def to_int16_def fallback_message_def shape_str_def
      show_int_def)

lemma load_sound_with_fallback:
  "load_sound (layout_make_sound 1) (Some (44100, - 16, 1)) ''/app'' (\<lambda>path. Missing)
     [(''name'', PStr ''Rainfall''), (''filename'', PStr ''rain.wav''),
      (''fallback'', PGen (\<lambda>u. [1, 1, 1, 1, 1, 1]))]
   = ([''Missing audio file for Rainfall: expected /app/sounds-wav/rain.wav.''],
      Inr (Sound (Arr1 [0, 16383, 32767, 32767, 16383, 0])))"
  by (simp add: load_sound_def getitem_def call_fallback_def SOUNDS_DIR_def create_sound_def
      normalize_six_ones fade_six_ones encode_sample_values Let_def mixer_channels_def
      adapt_shape_def to_int16_def)





lemma on_close_running_app: "on_close running_app = Inr closed_app"
  by (simp add: on_close_def running_app_def closed_app_def profile_names_def channel_stop_def
      Let_def)

lemma on_close_closed_app: "on_close closed_app = Inl (PygameError ''mixer not initialized'')"
  by (simp add: on_close_def closed_app_def profile_names_def channel_stop_def Let_def)

lemma fade_two_negative: "apply_fade_edges dt [1, - 1 / 2] (- 1) = Inr [1, - 1 / 2]"
  by (simp add: apply_fade_edges_def fade_len_negative)

lemma float_round_default_fade_finite:
  "\<bar>float_round Float64 (DEFAULT_FADE_DURATION * 44100)\<bar> < pow2 1024"
  by (simp add: float_round_default_fade pow2_1024_gt)

lemma fade_count_default_four:
  "min (py_int (float_round Float64 (DEFAULT_FADE_DURATION * 44100)))
     (int (length [1, - 1 / 2, 1 / 4, 1 / 8 :: real]) div 2) = 2"
  by (simp add: float_round_default_fade py_int_def)

lemma on_volume_change_mixer_off:
  assumes "\<not> mixer_init st" "map_of (channels st) name = Some c"
  shows "on_volume_change name raw st = Inl (PygameError ''mixer not initialized'')"
  using assms by (simp add: on_volume_change_def Let_def set_volume_def)

subsection \<open>Auxiliary facts about the program\<close>



subsection \<open>Smoothing\<close>

text \<open>
  Claim C7. For every signal and every window size at most 1, \<open>moving_average\<close>
  returns the input signal unchanged.
\<close>

theorem moving_average_identity:
  "window_size \<le> 1 \<Longrightarrow> moving_average convolve_same signal window_size = Inr signal"
  by (simp add: moving_average_def)

theorem moving_average_identity_witness:
  "(1::int) \<le> 1 \<and> moving_average (\<lambda>a v. Inr a) [1 / 2, - 1 / 4, 0] 1 = Inr [1 / 2, - 1 / 4, 0]"
  using moving_average_identity [of 1 "\<lambda>a v. Inr a" "[1 / 2, - 1 / 4, 0]"] by simp

subsection \<open>Generation\<close>

text \<open>
  Claim C9, as amended. For every duration \<open>d \<ge> 0\<close> whose float64 product with the
  sample rate is finite, \<open>generate_white_noise\<close> returns a buffer of
  \<open>int(44100 * d)\<close> samples: the float64 product truncated to an integer, not the
  exact product rounded to the nearest one; the samples are the first draws of the
  random source; duration 0 yields the empty buffer.
\<close>

theorem generate_white_noise_length:
  "(0 \<le> d \<and> float_round Float64 (44100 * d) < pow2 1024 \<longrightarrow>
      (\<exists>xs. generate_white_noise rng d = Inr xs
         \<and> int (length xs) = \<lfloor>float_round Float64 (44100 * d)\<rfloor>
         \<and> xs = map rng [0..<length xs]))
   \<and> generate_white_noise rng 0 = Inr []"
proof (intro conjI impI)
  assume a: "0 \<le> d \<and> float_round Float64 (44100 * d) < pow2 1024"
  then have nn: "0 \<le> float_round Float64 (44100 * d)"
    by (intro float_round_nonneg) simp
  with a have "\<bar>float_round Float64 (44100 * d)\<bar> < pow2 1024" by simp
  then have "int_of_float (float_round Float64 (44100 * d))
      = Inr (py_int (float_round Float64 (44100 * d)))"
    by (rule int_of_float_finite)
  with nn show "\<exists>xs. generate_white_noise rng d = Inr xs
         \<and> int (length xs) = \<lfloor>float_round Float64 (44100 * d)\<rfloor>
         \<and> xs = map rng [0..<length xs]"
    by (simp add: generate_white_noise_def SAMPLE_RATE_def py_int_def)
next
  show "generate_white_noise rng 0 = Inr []"
    by (simp add: generate_white_noise_def int_of_float_def py_int_def not_le)
qed

theorem generate_white_noise_length_witness:
  "(0::real) \<le> BUFFER_SECONDS \<and> float_round Float64 (44100 * BUFFER_SECONDS) < pow2 1024
   \<and> (\<exists>xs. generate_white_noise (\<lambda>i. 0) BUFFER_SECONDS = Inr xs \<and> int (length xs) = 352800)
   \<and> generate_white_noise (\<lambda>i. 0) 0 = Inr []"
  using generate_white_noise_length [of BUFFER_SECONDS "\<lambda>i. 0"]
  by (auto simp: BUFFER_SECONDS_def float_round_352800 pow2_1024_gt)

text \<open>
  The claim as the specification words it fails at the duration \<open>1/16384\<close> s:
  \<open>44100/16384 = 2.69...\<close> is a float64, the code produces 2 samples and the
  specification's \<open>round\<close> asks for 3. At the duration \<open>2 ^ 1010\<close> s the product
  is infinite and \<open>int\<close> raises OverflowError.
\<close>

theorem generate_white_noise_round_counterexample:
  "generate_white_noise (\<lambda>i. 0) (1 / 16384) = Inr [0, 0]
   \<and> spec_sample_count (1 / 16384) = 3
   \<and> generate_white_noise (\<lambda>i. 0) (pow2 1010)
       = Inl (OverflowError ''cannot convert float infinity to integer'')"
proof (intro conjI)
  show "generate_white_noise (\<lambda>i. 0) (1 / 16384) = Inr [0, 0]"
    by (simp add: generate_white_noise_def SAMPLE_RATE_def float_round_eval [where e = 1]
        pow2_def rne_def int_of_float_def py_int_def upt_rec)
  show "spec_sample_count (1 / 16384) = 3"
    by (simp add: spec_sample_count_def SAMPLE_RATE_def round_def)
  have "pow2 1024 \<le> \<bar>float_round Float64 (real_of_int SAMPLE_RATE * pow2 1010)\<bar>"
    using float_round_top_product by (simp add: SAMPLE_RATE_def mult.commute)
  then show "generate_white_noise (\<lambda>i. 0) (pow2 1010)
       = Inl (OverflowError ''cannot convert float infinity to integer'')"
    by (simp add: generate_white_noise_def int_of_float_infinite)
qed

subsection \<open>Normalisation\<close>

text \<open>
  Claim C5. For every signal whose maximum absolute value \<open>peak\<close> is nonzero,
  \<open>normalize\<close> returns a signal of the same length whose maximum absolute value is
  exactly 1, in either float format; for a signal of zeros it returns the signal
  unchanged, with no division. (A maximum exists for a signal with at least one
  sample; \<open>normalize_samples_empty\<close> is the empty array.)
\<close>

theorem normalize_samples_spec:
  "(np_max (map abs samples) = Inr peak \<and> peak \<noteq> 0 \<longrightarrow>
      (\<exists>ys. normalize_samples dt samples = Inr ys \<and> length ys = length samples
         \<and> np_max (map abs ys) = Inr 1))
   \<and> (samples \<noteq> [] \<and> (\<forall>x\<in>set samples. x = 0) \<longrightarrow> normalize_samples dt samples = Inr samples)"
  using normalize_samples_peak [of samples peak dt] normalize_samples_zero [of samples dt]
  by auto

theorem normalize_samples_spec_witness:
  "np_max (map abs [1 / 2, - 2, 1]) = Inr 2 \<and> (2::real) \<noteq> 0
   \<and> normalize_samples Float32 [1 / 2, - 2, 1] = Inr [1 / 4, - 1, 1 / 2]
   \<and> np_max (map abs [1 / 4, - 1, 1 / 2]) = Inr 1
   \<and> normalize_samples Float32 [0, 0, 0] = Inr [0, 0, 0]"
  using normalize_samples_spec [of "[1 / 2, - 2, 1]" 2 Float32]
    normalize_samples_spec [of "[0, 0, 0]" 0 Float32]
  by (simp add: normalize_samples_def)

subsection \<open>Edge fade\<close>

text \<open>
  Claim C6, as amended. \<open>apply_fade_edges\<close> fades
  \<open>c = min(int(fade_duration * 44100), len(samples) // 2)\<close> samples at each end, the
  float64 product truncated to an integer (OverflowError when the product is infinite),
  and returns the samples unchanged when \<open>c \<le> 0\<close>. For every signal of length \<open>\<ge> 2\<close>
  with \<open>c \<ge> 1\<close> the output has the input's length, its first \<open>c\<close> samples are the
  input's times the rising ramp and its last \<open>c\<close> the input's times the ramp read
  backwards, its first and its last sample are exactly 0, and, the samples being floats of
  the array's format and the array shorter than \<open>2 ^ 53\<close>, no sample's magnitude
  exceeds that of the un-faded sample.
\<close>

theorem apply_fade_edges_spec:
  "(pow2 1024 \<le> \<bar>float_round Float64 (fd * 44100)\<bar> \<longrightarrow>
      apply_fade_edges dt xs fd = Inl (OverflowError ''cannot convert float infinity to integer''))
   \<and> (\<bar>float_round Float64 (fd * 44100)\<bar> < pow2 1024 \<longrightarrow>
       (let c = min (py_int (float_round Float64 (fd * 44100))) (int (length xs) div 2) in
          (c \<le> 0 \<longrightarrow> apply_fade_edges dt xs fd = Inr xs) \<and>
          (2 \<le> length xs \<and> 1 \<le> c \<longrightarrow>
             (\<exists>out. apply_fade_edges dt xs fd = Inr out \<and> length out = length xs
                \<and> out ! 0 = 0 \<and> out ! (length xs - 1) = 0
                \<and> (\<forall>i<nat c.
                      out ! i = float_round dt (xs ! i * np_linspace dt 0 1 (nat c) ! i)
                      \<and> out ! (length xs - 1 - i)
                          = float_round dt (xs ! (length xs - 1 - i) * np_linspace dt 0 1 (nat c) ! i))
                \<and> ((\<forall>x\<in>set xs. float_round dt x = x) \<and> length xs \<le> 2 ^ 53 \<longrightarrow>
                      (\<forall>i<length xs. \<bar>out ! i\<bar> \<le> \<bar>xs ! i\<bar>))))))"
proof (intro conjI impI)
  assume "pow2 1024 \<le> \<bar>float_round Float64 (fd * 44100)\<bar>"
  then show "apply_fade_edges dt xs fd
      = Inl (OverflowError ''cannot convert float infinity to integer'')"
    by (simp add: apply_fade_edges_error fade_len_Inl)
next
  assume fin: "\<bar>float_round Float64 (fd * 44100)\<bar> < pow2 1024"
  define c where "c = min (py_int (float_round Float64 (fd * 44100))) (int (length xs) div 2)"
  have fl: "fade_len fd (length xs) = Inr c"
    unfolding c_def using fin by (rule fade_len_Inr)
  have noop: "apply_fade_edges dt xs fd = Inr xs" if "c \<le> 0"
    using fl that by (rule apply_fade_edges_noop)
  have main: "\<exists>out. apply_fade_edges dt xs fd = Inr out \<and> length out = length xs
                \<and> out ! 0 = 0 \<and> out ! (length xs - 1) = 0
                \<and> (\<forall>i<nat c.
                      out ! i = float_round dt (xs ! i * np_linspace dt 0 1 (nat c) ! i)
                      \<and> out ! (length xs - 1 - i)
                          = float_round dt (xs ! (length xs - 1 - i) * np_linspace dt 0 1 (nat c) ! i))
                \<and> ((\<forall>x\<in>set xs. float_round dt x = x) \<and> length xs \<le> 2 ^ 53 \<longrightarrow>
                      (\<forall>i<length xs. \<bar>out ! i\<bar> \<le> \<bar>xs ! i\<bar>))"
    if a: "2 \<le> length xs \<and> 1 \<le> c"
  proof -
    define k where "k = nat c"
    define n where "n = length xs"
    define R where "R = np_linspace dt 0 1 k"
    from a have c1: "1 \<le> c" by simp
    have k: "1 \<le> k" "2 * k \<le> n"
      using a fade_len_half [OF fl] by (auto simp: k_def n_def)
    from apply_fade_edges_nth [OF fl c1, of dt] obtain out where
      eq: "apply_fade_edges dt xs fd = Inr out" and len: "length out = n"
      and nth: "\<And>i. i < n \<Longrightarrow> out ! i =
         (if i < k then float_round dt (xs ! i * R ! i)
          else if i < n - k then xs ! i
          else float_round dt (xs ! i * R ! (n - 1 - i)))"
      unfolding k_def n_def R_def by blast
    have R0: "R ! 0 = 0"
      unfolding R_def using k by (intro np_linspace_first) simp
    have first: "out ! 0 = 0"
      using nth [of 0] k R0 by simp
    have "\<not> n - 1 < k" "\<not> n - 1 < n - k" "n - 1 < n" using k by auto
    then have last: "out ! (n - 1) = 0"
      using nth [of "n - 1"] R0 by simp
    have edges: "out ! i = float_round dt (xs ! i * R ! i)
        \<and> out ! (n - 1 - i) = float_round dt (xs ! (n - 1 - i) * R ! i)" if "i < k" for i
    proof
      show "out ! i = float_round dt (xs ! i * R ! i)"
        using nth [of i] that k by simp
      have "\<not> n - 1 - i < k" "\<not> n - 1 - i < n - k" "n - 1 - i < n" "n - 1 - (n - 1 - i) = i"
        using k that by auto
      then show "out ! (n - 1 - i) = float_round dt (xs ! (n - 1 - i) * R ! i)"
        using nth [of "n - 1 - i"] by simp
    qed
    have mag: "\<bar>out ! i\<bar> \<le> \<bar>xs ! i\<bar>"
      if fl: "\<forall>x\<in>set xs. float_round dt x = x" and big: "length xs \<le> 2 ^ 53" and i: "i < n" for i
    proof -
      have kbig: "k \<le> 2 ^ 53" using k big by (simp add: n_def)
      have x: "float_round dt (xs ! i) = xs ! i"
        using fl i by (simp add: n_def)
      have unit: "0 \<le> R ! j \<and> R ! j \<le> 1" if "j < k" for j
        unfolding R_def using that kbig by (rule np_linspace_unit)
      show ?thesis
      proof (cases "i < k")
        case True
        with unit [of i] show ?thesis
          using nth [OF i] float_round_scale_le [OF x, of "R ! i"] by simp
      next
        case False
        show ?thesis
        proof (cases "i < n - k")
          case True
          with False show ?thesis using nth [OF i] by simp
        next
          case nk: False
          with i k have "n - 1 - i < k" by auto
          from unit [OF this] False nk show ?thesis
            using nth [OF i] float_round_scale_le [OF x, of "R ! (n - 1 - i)"] by simp
        qed
      qed
    qed
    show ?thesis
      using eq len first last edges mag
      unfolding k_def [symmetric] n_def [symmetric] R_def [symmetric]
      by (intro exI [of _ out]) (simp add: n_def)
  qed
  show "let c = min (py_int (float_round Float64 (fd * 44100))) (int (length xs) div 2) in
          (c \<le> 0 \<longrightarrow> apply_fade_edges dt xs fd = Inr xs) \<and>
          (2 \<le> length xs \<and> 1 \<le> c \<longrightarrow>
             (\<exists>out. apply_fade_edges dt xs fd = Inr out \<and> length out = length xs
                \<and> out ! 0 = 0 \<and> out ! (length xs - 1) = 0
                \<and> (\<forall>i<nat c.
                      out ! i = float_round dt (xs ! i * np_linspace dt 0 1 (nat c) ! i)
                      \<and> out ! (length xs - 1 - i)
                          = float_round dt (xs ! (length xs - 1 - i) * np_linspace dt 0 1 (nat c) ! i))
                \<and> ((\<forall>x\<in>set xs. float_round dt x = x) \<and> length xs \<le> 2 ^ 53 \<longrightarrow>
                      (\<forall>i<length xs. \<bar>out ! i\<bar> \<le> \<bar>xs ! i\<bar>))))"
    unfolding Let_def c_def [symmetric] using noop main by blast
qed

theorem apply_fade_edges_spec_witness:
  "\<bar>float_round Float64 (DEFAULT_FADE_DURATION * 44100)\<bar> < pow2 1024
   \<and> min (py_int (float_round Float64 (DEFAULT_FADE_DURATION * 44100)))
         (int (length [1, - 1 / 2, 1 / 4, 1 / 8 :: real]) div 2) = 2
   \<and> 2 \<le> length [1, - 1 / 2, 1 / 4, 1 / 8 :: real]
   \<and> apply_fade_edges Float32 [1, - 1 / 2, 1 / 4, 1 / 8] DEFAULT_FADE_DURATION
       = Inr [0, - 1 / 2, 1 / 4, 0]
   \<and> float_round Float32 (- 1 / 2) = - 1 / 2
   \<and> \<bar>float_round Float64 (- 1 * 44100)\<bar> < pow2 1024
   \<and> min (py_int (float_round Float64 (- 1 * 44100))) (int (length [1, - 1 / 2 :: real]) div 2)
       \<le> 0
   \<and> apply_fade_edges Float32 [1, - 1 / 2] (- 1) = Inr [1, - 1 / 2]"
  using apply_fade_edges_spec [of DEFAULT_FADE_DURATION Float32 "[1, - 1 / 2, 1 / 4, 1 / 8]"]
    apply_fade_edges_spec [of "- 1" Float32 "[1, - 1 / 2]"]
  unfolding fade_four fade_two_negative fade_count_default_four
  by (simp add: float_round_default_fade_finite float_round_minus float_round_44100
      pow2_1024_gt py_int_def)

text \<open>
  The fade length as the specification words it, without the truncation, fails at the
  fade duration \<open>1/16384\<close> s on a signal of 10 samples: the code fades 2 samples at
  each end, the formula gives \<open>44100/16384 = 2.69...\<close>. At the fade duration
  \<open>2 ^ 1010\<close> s the product is infinite and \<open>int\<close> raises OverflowError.
\<close>

theorem fade_length_counterexample:
  "fade_len (1 / 16384) 10 = Inr 2 \<and> spec_fade_length (1 / 16384) 10 = 11025 / 4096
   \<and> apply_fade_edges Float32 [1, - 1 / 2, 1 / 4, 1 / 8] (pow2 1010)
       = Inl (OverflowError ''cannot convert float infinity to integer'')"
  by (simp add: fade_len_dyadic spec_fade_length_def SAMPLE_RATE_def apply_fade_edges_error
      fade_len_overflow)

text \<open>
  Claim C10. For every signal and every fade length \<open>c \<ge> 1\<close> computed by
  \<open>apply_fade_edges\<close>, every sample at an index in \<open>[c, len(samples) - c)\<close> is returned
  unchanged, and the length is kept: only the first \<open>c\<close> and the last \<open>c\<close> samples are
  touched.
\<close>

theorem apply_fade_edges_frame:
  assumes "fade_len fd (length xs) = Inr c" and "1 \<le> c"
    and "nat c \<le> i" and "i < length xs - nat c"
  shows "\<exists>out. apply_fade_edges dt xs fd = Inr out \<and> out ! i = xs ! i
           \<and> length out = length xs"
proof -
  from assms(4) have "i < length xs" by simp
  with apply_fade_edges_nth [OF assms(1,2), of dt] assms(3,4) show ?thesis
    by auto
qed

theorem apply_fade_edges_frame_witness:
  "fade_len DEFAULT_FADE_DURATION (length [1, - 1 / 2, 1 / 4, 1 / 8, 1 / 16 :: real]) = Inr 2
   \<and> (1::int) \<le> 2 \<and> nat 2 \<le> (2::nat)
   \<and> 2 < length [1, - 1 / 2, 1 / 4, 1 / 8, 1 / 16 :: real] - nat 2
   \<and> apply_fade_edges Float32 [1, - 1 / 2, 1 / 4, 1 / 8, 1 / 16] DEFAULT_FADE_DURATION
       = Inr [0, - 1 / 2, 1 / 4, 1 / 8, 0]
   \<and> [0, - 1 / 2, 1 / 4, 1 / 8, 0 :: real] ! 2 = [1, - 1 / 2, 1 / 4, 1 / 8, 1 / 16] ! 2"
  using apply_fade_edges_frame [of DEFAULT_FADE_DURATION "[1, - 1 / 2, 1 / 4, 1 / 8, 1 / 16]" 2 2
      Float32]
  unfolding fade_five
  by (simp add: fade_len_default)

subsection \<open>Encoding\<close>

text \<open>
  Claim C3, as amended. For every sample \<open>x\<close> the encoder produces the 16-bit value
  \<open>trunc(clamp(x * 32767, -32768, 32767))\<close>: the float32 product is clamped and then
  truncated towards zero by the cast, not rounded to the nearest integer. The cast does
  not wrap around: the truncated value lies in \<open>[-32768, 32767]\<close>, so every value of
  the encoded buffer does.
\<close>

theorem encode_sample_spec:
  "sint (encode_sample x)
     = py_int (np_clip (float_round Float32 (x * 32767)) (- 32768) 32767)
   \<and> - 32768 \<le> py_int (np_clip (float_round Float32 (x * 32767)) (- 32768) 32767)
   \<and> py_int (np_clip (float_round Float32 (x * 32767)) (- 32768) 32767) \<le> 32767
   \<and> to_int16 (Arr1 xs) = Arr1 (map encode_sample xs)
   \<and> to_int16 (Arr2 rows) = Arr2 (map (map encode_sample) rows)"
  using encode_range [of "float_round Float32 (x * 32767)"]
  by (simp add: sint_encode_sample to_int16_def)

theorem encode_sample_spec_witness:
  "sint (encode_sample (1 / 4)) = 8191 \<and> sint (encode_sample (- 2)) = - 32768
   \<and> sint (encode_sample 2) = 32767
   \<and> to_int16 (Arr1 [0, 1 / 2, 1]) = Arr1 [0, 16383, 32767]"
  using encode_sample_spec [of "1 / 4" "[0, 1 / 2, 1]" "[]"] encode_sample_spec [of "- 2" "[]" "[]"]
    encode_sample_spec [of 2 "[]" "[]"]
  by (simp add: np_clip_def py_int_def encode_sample_values float_round_quarter_scale
      float_round_65534 float_round_minus)

text \<open>
  The conversion as the specification words it, with \<open>round\<close>, fails at the sample
  \<open>0.25\<close>: \<open>0.25 * 32767 = 8191.75\<close> is a float32, the code stores 8191 and the
  formula gives 8192.
\<close>

theorem encode_sample_round_counterexample:
  "sint (encode_sample (1 / 4)) = 8191 \<and> spec_sample_int16 (1 / 4) = 8192"
  by (simp add: sint_encode_sample float_round_quarter_scale np_clip_def py_int_def
      spec_sample_int16_def round_def)

subsection \<open>Sound construction and loading\<close>



text \<open>
  Claim C1 (the code departs from it). For every entry of \<open>SOUND_PROFILES\<close> whose file is
  missing or fails to decode, \<open>_load_sound\<close> prints its diagnostic and then raises
  \<open>KeyError('fallback')\<close>: no entry of \<open>SOUND_PROFILES\<close> has the key \<open>fallback\<close> that
  the fallback reads, so no synthesized sound is returned. (A profile that has the key
  is served: \<open>load_sound_with_fallback\<close>.)
\<close>

theorem load_sound_profiles_keyerror:
  "map (\<lambda>p. snd (load_sound make_sound init_info base_dir (\<lambda>path. Missing) p)) SOUND_PROFILES
     = map (\<lambda>p. Inl (KeyError ''fallback'')) SOUND_PROFILES
   \<and> map (\<lambda>p. snd (load_sound make_sound init_info base_dir (\<lambda>path. Undecodable err) p))
       SOUND_PROFILES
     = map (\<lambda>p. Inl (KeyError ''fallback'')) SOUND_PROFILES
   \<and> length SOUND_PROFILES = 8
   \<and> load_sound make_sound init_info ''/app'' (\<lambda>path. Missing) (SOUND_PROFILES ! 3)
     = ([''Missing audio file for Rainfall: expected /app/sounds-wav/rain.wav.''],
        Inl (KeyError ''fallback''))
   \<and> load_sound make_sound init_info ''/app'' (\<lambda>path. Undecodable ''bad header'')
       (SOUND_PROFILES ! 3)
     = ([''Unable to load /app/sounds-wav/rain.wav: bad header. Falling back to generated audio.''],
        Inl (KeyError ''fallback''))"
  by (simp add: SOUND_PROFILES_def load_sound_def getitem_def call_fallback_def Let_def
      SOUNDS_DIR_def)

subsection \<open>Gain control\<close>



subsection \<open>Shutdown\<close>

text \<open>
  Claim C4, as amended. On the running application (mixer initialised, window alive)
  \<open>on_close\<close> returns normally: every channel is stopped, the set of channels is the
  same, the mixer is released and the window destroyed. It is not idempotent: invoked
  again on the state it leaves, it raises.
\<close>

theorem on_close_spec:
  assumes "mixer_init st" and "window_alive st"
  shows "\<exists>st'. on_close st = Inr st' \<and> map fst (channels st') = map fst (channels st)
           \<and> list_all (\<lambda>(k, c). \<not> playing c) (channels st')
           \<and> \<not> mixer_init st' \<and> \<not> window_alive st'
           \<and> (\<exists>e. on_close st' = Inl e)"
proof -
  from stop_all_running [of "channels st"] obtain cs' where
    cs': "stop_all True (channels st) = Inr cs'" "map fst cs' = map fst (channels st)"
      "list_all (\<lambda>(k, c). \<not> playing c) cs'"
    by blast
  define st' where "st' = st\<lparr>channels := cs', mixer_init := False, window_alive := False\<rparr>"
  have 1: "on_close st = Inr st'"
    using assms cs'(1) by (simp add: on_close_def Let_def st'_def)
  from on_close_not_twice [OF 1] have "\<exists>e. on_close st' = Inl e" .
  with 1 cs'(2,3) show ?thesis
    by (auto simp: st'_def)
qed

theorem on_close_spec_witness:
  "mixer_init running_app \<and> window_alive running_app
   \<and> on_close running_app = Inr closed_app
   \<and> list_all (\<lambda>(k, c). \<not> playing c) (channels closed_app)
   \<and> \<not> mixer_init closed_app"
  using on_close_spec [of running_app] on_close_running_app
  by (simp add: running_app_def closed_app_def profile_names_def)

text \<open>
  The second invocation: after \<open>pygame.mixer.quit()\<close> the first \<open>channel.stop()\<close> of the
  loop raises \<open>pygame.error\<close>.
\<close>

theorem on_close_idempotent_counterexample:
  "on_close running_app = Inr closed_app
   \<and> on_close closed_app = Inl (PygameError ''mixer not initialized'')"
  by (simp add: on_close_running_app on_close_closed_app)

end
